theory Spec2Isabelle
  imports Complex_Main
begin

section \<open>The goal store of \<open>app.py\<close>\<close>

text \<open>
  The program is a FastAPI application over one SQLite table, \<open>career_goals\<close>. Each
  request handler reads the table through a SQLAlchemy session, changes at most one row
  and commits. The embedding passes the table explicitly: a handler is a function from
  its arguments and the table to a result and the table after the request.

  Conventions of the embedding.
  \<^item> Python's \<open>int\<close> is \<open>int\<close>. Python's \<open>float\<close> (the \<open>progress\<close> column and the
    result of \<open>/\<close>) is \<open>real\<close>: the quotient is the exact one, the rounding of IEEE
    doubles is not part of the model.
  \<^item> \<open>str\<close> is \<open>string\<close>.
  \<^item> SQLite's INTEGER is a signed 64-bit number. An \<open>int\<close> that a request brings (the
    \<open>goal_id\<close> of the path, the \<open>estimated_days\<close> of the body) is bound as a
    parameter of an SQL statement, and the binding raises \<open>OverflowError\<close> outside that
    range. The \<open>elapsed_days + 1\<close> that the two increments write is not checked: a stored
    \<open>elapsed_days\<close> counts the increments made since it was last 0, and no run of
    requests brings it near \<open>2^63\<close>.
  \<^item> A raised exception is the \<open>Inl\<close> of a sum; a handler that raises before
    \<open>db.commit()\<close> leaves the table as it was, since the session is closed without a
    commit.
  \<^item> A result \<open>Inr\<close> is a normal return of the handler, which FastAPI sends with
    status 200.
\<close>

subsection \<open>Rows, request bodies, response bodies\<close>

text \<open>The ORM class \<open>CareerGoal\<close>: one row of the table. \<open>milestones\<close> is the
  comma-separated string. The column \<open>id\<close> is named \<open>goal_id\<close> here.\<close>

record CareerGoal =
  goal_id :: int
  title :: string
  description :: string
  milestones :: string
  progress :: real
  estimated_days :: int
  elapsed_days :: int

text \<open>The pydantic class \<open>CareerGoalCreate\<close>: the body of POST and of PUT.\<close>

record CareerGoalCreate =
  req_title :: string
  req_description :: string
  req_milestones :: "string list"
  req_progress :: real
  req_estimated_days :: int

text \<open>The pydantic class \<open>CareerGoalResponse\<close>; the dictionaries that the PUT and PATCH
  handlers build by hand have the same seven keys.\<close>

record CareerGoalResponse =
  resp_id :: int
  resp_title :: string
  resp_description :: string
  resp_milestones :: "string list"
  resp_progress :: real
  resp_estimated_days :: int
  resp_elapsed_days :: int

text \<open>The JSON objects returned by the handlers other than POST and GET:
  \<open>{"message": m}\<close>, \<open>{"updated_goal": g}\<close> and \<open>{"message": m, "goal": g}\<close>.\<close>

datatype body =
    Message string
  | Updated_goal CareerGoalResponse
  | Message_goal string CareerGoalResponse

text \<open>What a request can fail with: \<open>HTTPException(status_code, detail)\<close> raised by a
  handler, Python's \<open>ZeroDivisionError\<close> raised by \<open>/\<close>, the \<open>OverflowError\<close> raised
  when an \<open>int\<close> outside the signed 64-bit range is bound as an SQL parameter, and the
  validation error that FastAPI raises when a handler's return value does not fit its
  \<open>response_model\<close>.\<close>

datatype error =
    HTTPException nat string
  | ZeroDivisionError
  | OverflowError
  | ResponseValidationError

text \<open>The status line of the reply: 200 for a normal return, the exception's own code
  for an \<open>HTTPException\<close>, 500 for any other exception.\<close>

fun status_code :: "error + 'a \<Rightarrow> nat" where
  "status_code (Inr _) = 200"
| "status_code (Inl (HTTPException c _)) = c"
| "status_code (Inl ZeroDivisionError) = 500"
| "status_code (Inl OverflowError) = 500"
| "status_code (Inl ResponseValidationError) = 500"

type_synonym store = "CareerGoal list"

subsection \<open>Strings: \<open>",".join\<close> and \<open>.split(",")\<close>\<close>

text \<open>\<open>sep.join(xs)\<close>.\<close>

fun str_join :: "string \<Rightarrow> string list \<Rightarrow> string" where
  "str_join sep [] = []"
| "str_join sep [x] = x"
| "str_join sep (x # y # ys) = x @ sep @ str_join sep (y # ys)"

text \<open>\<open>s.split(c)\<close> for a separator of one character: the pieces between the
  occurrences of \<open>c\<close>; the empty string gives one empty piece.\<close>

fun str_split :: "char \<Rightarrow> string \<Rightarrow> string list" where
  "str_split c [] = [[]]"
| "str_split c (x # xs) =
     (if x = c then [] # str_split c xs
      else (case str_split c xs of
              [] \<Rightarrow> [[x]]
            | w # ws \<Rightarrow> (x # w) # ws))"

text \<open>\<open>m.split(",") if m else []\<close>, as written in four handlers.\<close>

definition milestones_list :: "string \<Rightarrow> string list" where
  "milestones_list m = (if m \<noteq> [] then str_split CHR '','' m else [])"

subsection \<open>The table\<close>

text \<open>The range of SQLite's INTEGER, and the binding of a Python \<open>int\<close> as a parameter
  of an SQL statement.\<close>

definition int64 :: "int \<Rightarrow> bool" where
  "int64 n \<longleftrightarrow> - 9223372036854775808 \<le> n \<and> n \<le> 9223372036854775807"

definition bind_integer :: "int \<Rightarrow> error + int" where
  "bind_integer n = (if int64 n then Inr n else Inl OverflowError)"

text \<open>\<open>db.query(CareerGoal).filter(CareerGoal.id == goal_id).first()\<close>: the key is
  bound, then the first row with the key is taken, \<open>None\<close> when there is none.\<close>

definition query_first :: "int \<Rightarrow> store \<Rightarrow> error + CareerGoal option" where
  "query_first gid db =
     (case bind_integer gid of
        Inl e \<Rightarrow> Inl e
      | Inr k \<Rightarrow> Inr (find (\<lambda>g. goal_id g = k) db))"

text \<open>The table after the \<open>UPDATE ... WHERE id = goal_id g'\<close> that \<open>db.commit()\<close>
  issues when attributes of the row \<open>g'\<close> were assigned.\<close>

definition commit_update :: "CareerGoal \<Rightarrow> store \<Rightarrow> store" where
  "commit_update g' db = map (\<lambda>g. if goal_id g = goal_id g' then g' else g) db"

text \<open>The table after the \<open>DELETE ... WHERE id = gid\<close> of
  \<open>db.delete(db_goal); db.commit()\<close>.\<close>

definition commit_delete :: "int \<Rightarrow> store \<Rightarrow> store" where
  "commit_delete gid db = filter (\<lambda>g. goal_id g \<noteq> gid) db"

text \<open>The key that SQLite gives a row inserted without one into a table whose key is
  an \<open>INTEGER PRIMARY KEY\<close>: 1 in an empty table, otherwise one more than the largest
  key in the table.\<close>

fun next_id :: "store \<Rightarrow> int" where
  "next_id [] = 1"
| "next_id (g # gs) = fold max (map goal_id gs) (goal_id g) + 1"

text \<open>Python's \<open>a / b\<close> on two ints.\<close>

definition true_div :: "int \<Rightarrow> int \<Rightarrow> error + real" where
  "true_div a b = (if b = 0 then Inl ZeroDivisionError else Inr (real_of_int a / real_of_int b))"

text \<open>The dictionary with the keys \<open>id\<close>, \<open>title\<close>, \<open>description\<close>, \<open>milestones\<close>,
  \<open>progress\<close>, \<open>estimated_days\<close>, \<open>elapsed_days\<close> that \<open>get_goals\<close>,
  \<open>increment_progress\<close>, \<open>increment_goal_progress\<close> and \<open>update_goal\<close> each build from
  a row.\<close>

definition goal_dict :: "CareerGoal \<Rightarrow> CareerGoalResponse" where
  "goal_dict g =
     \<lparr>resp_id = goal_id g,
      resp_title = title g,
      resp_description = description g,
      resp_milestones = milestones_list (milestones g),
      resp_progress = progress g,
      resp_estimated_days = estimated_days g,
      resp_elapsed_days = elapsed_days g\<rparr>"

subsection \<open>The response model of POST\<close>

text \<open>
  \<open>create_goal\<close> returns the ORM row itself and declares
  \<open>response_model=CareerGoalResponse\<close> (with \<open>orm_mode\<close>), so FastAPI reads the seven
  attributes off the row and validates each against the field's type. The attribute
  \<open>milestones\<close> of a row is a \<open>str\<close>; the field is a \<open>List[str]\<close>, and pydantic takes
  a list for it and refuses a \<open>str\<close>. The two kinds of value that occur:
\<close>

datatype py_value = Py_str string | Py_list "string list"

fun validate_list_str :: "py_value \<Rightarrow> error + string list" where
  "validate_list_str (Py_list xs) = Inr xs"
| "validate_list_str (Py_str s) = Inl ResponseValidationError"

definition from_orm :: "CareerGoal \<Rightarrow> error + CareerGoalResponse" where
  "from_orm g =
     (case validate_list_str (Py_str (milestones g)) of
        Inl e \<Rightarrow> Inl e
      | Inr ms \<Rightarrow>
          Inr \<lparr>resp_id = goal_id g,
               resp_title = title g,
               resp_description = description g,
               resp_milestones = ms,
               resp_progress = progress g,
               resp_estimated_days = estimated_days g,
               resp_elapsed_days = elapsed_days g\<rparr>)"

subsection \<open>The handlers\<close>

text \<open>POST \<open>/goals/\<close>. \<open>db.commit()\<close> issues the INSERT, which binds the
  \<open>estimated_days\<close> of the request (the key is left to SQLite). The row is committed
  before the handler returns, so it stays in the table whatever becomes of the
  reply.\<close>

definition create_goal :: "CareerGoalCreate \<Rightarrow> store \<Rightarrow> (error + CareerGoalResponse) \<times> store" where
  "create_goal goal db =
     (let db_goal =
            \<lparr>goal_id = next_id db,
             title = req_title goal,
             description = req_description goal,
             milestones = str_join '','' (req_milestones goal),
             progress = req_progress goal,
             estimated_days = req_estimated_days goal,
             elapsed_days = 0\<rparr>
      in case bind_integer (estimated_days db_goal) of
           Inl e \<Rightarrow> (Inl e, db)
         | Inr _ \<Rightarrow> (from_orm db_goal, db @ [db_goal]))"

text \<open>GET \<open>/goals/\<close>.\<close>

definition get_goals :: "store \<Rightarrow> CareerGoalResponse list" where
  "get_goals db = map goal_dict db"

text \<open>DELETE \<open>/goals/{goal_id}/\<close>.\<close>

definition delete_goal :: "int \<Rightarrow> store \<Rightarrow> (error + body) \<times> store" where
  "delete_goal gid db =
     (case query_first gid db of
        Inl e \<Rightarrow> (Inl e, db)
      | Inr None \<Rightarrow> (Inl (HTTPException 404 ''Goal not found''), db)
      | Inr (Some db_goal) \<Rightarrow>
          (Inr (Message ''Goal deleted successfully''), commit_delete (goal_id db_goal) db))"

text \<open>PUT \<open>/goals/{goal_id}/increment/\<close>.\<close>

definition increment_progress :: "int \<Rightarrow> store \<Rightarrow> (error + body) \<times> store" where
  "increment_progress gid db =
     (case query_first gid db of
        Inl e \<Rightarrow> (Inl e, db)
      | Inr None \<Rightarrow> (Inl (HTTPException 404 ''Goal not found''), db)
      | Inr (Some db_goal) \<Rightarrow>
          if elapsed_days db_goal < estimated_days db_goal then
            (let g1 = db_goal\<lparr>elapsed_days := elapsed_days db_goal + 1\<rparr>
             in case true_div (elapsed_days g1) (estimated_days g1) of
                  Inl e \<Rightarrow> (Inl e, db)
                | Inr q \<Rightarrow>
                    (let g2 = g1\<lparr>progress := q * 100\<rparr>;
                         g3 = (if elapsed_days g2 \<ge> estimated_days g2
                               then g2\<lparr>progress := 100\<rparr> else g2)
                     in (Inr (Updated_goal (goal_dict g3)), commit_update g3 db)))
          else (Inl (HTTPException 400 ''Goal already completed''), db))"

text \<open>PATCH \<open>/goals/{goal_id}/increment/\<close>.\<close>

definition increment_goal_progress :: "int \<Rightarrow> store \<Rightarrow> (error + body) \<times> store" where
  "increment_goal_progress gid db =
     (case query_first gid db of
        Inl e \<Rightarrow> (Inl e, db)
      | Inr (Some db_goal) \<Rightarrow>
          (let g1 = db_goal\<lparr>elapsed_days := elapsed_days db_goal + 1\<rparr>
           in case true_div (elapsed_days g1) (estimated_days g1) of
                Inl e \<Rightarrow> (Inl e, db)
              | Inr q \<Rightarrow>
                  (let g2 = g1\<lparr>progress := q * 100\<rparr>
                   in (Inr (Message_goal ''Progress updated'' (goal_dict g2)),
                       commit_update g2 db)))
      | Inr None \<Rightarrow> (Inr (Message ''Goal not found''), db))"

text \<open>PUT \<open>/goals/{goal_id}/\<close>. \<open>db.commit()\<close> issues the UPDATE, which binds the
  \<open>estimated_days\<close> of the request.\<close>

definition update_goal :: "int \<Rightarrow> CareerGoalCreate \<Rightarrow> store \<Rightarrow> (error + body) \<times> store" where
  "update_goal gid goal db =
     (case query_first gid db of
        Inl e \<Rightarrow> (Inl e, db)
      | Inr None \<Rightarrow> (Inl (HTTPException 404 ''Goal not found''), db)
      | Inr (Some db_goal) \<Rightarrow>
          (let g' = db_goal\<lparr>title := req_title goal,
                            description := req_description goal,
                            milestones := str_join '','' (req_milestones goal),
                            estimated_days := req_estimated_days goal,
                            elapsed_days := 0\<rparr>
           in case bind_integer (estimated_days g') of
                Inl e \<Rightarrow> (Inl e, db)
              | Inr _ \<Rightarrow> (Inr (Updated_goal (goal_dict g')), commit_update g' db)))"

subsection \<open>The tables a run of the service can reach\<close>

text \<open>The table is created empty; after that only the five writing handlers change
  it.\<close>

inductive reachable :: "store \<Rightarrow> bool" where
  reach_init: "reachable []"
| reach_create: "reachable db \<Longrightarrow> reachable (snd (create_goal goal db))"
| reach_delete: "reachable db \<Longrightarrow> reachable (snd (delete_goal gid db))"
| reach_increment: "reachable db \<Longrightarrow> reachable (snd (increment_progress gid db))"
| reach_patch: "reachable db \<Longrightarrow> reachable (snd (increment_goal_progress gid db))"
| reach_update: "reachable db \<Longrightarrow> reachable (snd (update_goal gid goal db))"

subsection \<open>Runs of requests\<close>

text \<open>The requests that write, the table each leaves, and the table a list of them
  leaves when served one after the other.\<close>

datatype request =
    Post CareerGoalCreate
  | Delete int
  | Put_increment int
  | Patch_increment int
  | Put int CareerGoalCreate

fun serve :: "request \<Rightarrow> store \<Rightarrow> store" where
  "serve (Post goal) db = snd (create_goal goal db)"
| "serve (Delete gid) db = snd (delete_goal gid db)"
| "serve (Put_increment gid) db = snd (increment_progress gid db)"
| "serve (Patch_increment gid) db = snd (increment_goal_progress gid db)"
| "serve (Put gid goal) db = snd (update_goal gid goal db)"

fun serve_all :: "request list \<Rightarrow> store \<Rightarrow> store" where
  "serve_all [] db = db"
| "serve_all (r # rs) db = serve_all rs (serve r db)"

fun is_post :: "request \<Rightarrow> bool" where
  "is_post (Post _) = True"
| "is_post _ = False"

section \<open>Properties of the table operations\<close>

text \<open>A key outside the signed 64-bit range cannot be looked up. A lookup that finds a
  row returns a row of the table with the key asked for, and the key is in range; for a
  key in range the lookup returns \<open>None\<close> exactly when no row has the key.\<close>

lemma query_first_overflow: "\<not> int64 gid \<Longrightarrow> query_first gid db = Inl OverflowError"
  by (simp add: query_first_def bind_integer_def)

lemma query_first_in_range:
  "int64 gid \<Longrightarrow> query_first gid db = Inr (find (\<lambda>g. goal_id g = gid) db)"
  by (simp add: query_first_def bind_integer_def)

lemma query_first_SomeD:
  assumes "query_first gid db = Inr (Some g)"
  shows "g \<in> set db \<and> goal_id g = gid \<and> int64 gid"
proof -
  from assms have range: "int64 gid"
    by (auto simp: query_first_def bind_integer_def split: if_splits)
  with assms have "find (\<lambda>g. goal_id g = gid) db = Some g"
    by (simp add: query_first_in_range)
  then have "g \<in> set db \<and> goal_id g = gid"
    by (induction db) (auto split: if_splits)
  with range show ?thesis by simp
qed

lemma query_first_None_iff:
  assumes "int64 gid"
  shows "query_first gid db = Inr None \<longleftrightarrow> gid \<notin> goal_id ` set db"
proof -
  have "find (\<lambda>g. goal_id g = gid) db = None \<longleftrightarrow> gid \<notin> goal_id ` set db"
    by (induction db) auto
  with assms show ?thesis by (simp add: query_first_in_range)
qed

text \<open>A committed update replaces the row under its key and touches no other key.\<close>

lemma query_first_commit_update_same:
  assumes "query_first gid db = Inr (Some g)" and "goal_id g' = gid"
  shows "query_first gid (commit_update g' db) = Inr (Some g')"
proof -
  from assms(1) have range: "int64 gid" using query_first_SomeD by blast
  with assms(1) have "find (\<lambda>g. goal_id g = gid) db = Some g"
    by (simp add: query_first_in_range)
  with assms(2) have "find (\<lambda>g. goal_id g = gid) (commit_update g' db) = Some g'"
    unfolding commit_update_def by (induction db) (auto split: if_splits)
  with range show ?thesis by (simp add: query_first_in_range)
qed

lemma query_first_commit_update_other:
  assumes "j \<noteq> goal_id g'"
  shows "query_first j (commit_update g' db) = query_first j db"
proof -
  from assms have "find (\<lambda>g. goal_id g = j) (commit_update g' db) = find (\<lambda>g. goal_id g = j) db"
    unfolding commit_update_def by (induction db) auto
  then show ?thesis by (simp add: query_first_def bind_integer_def)
qed

lemma map_goal_id_commit_update:
  "map goal_id (commit_update g' db) = map goal_id db"
  unfolding commit_update_def by (induction db) auto

lemma set_commit_update: "set (commit_update g' db) \<subseteq> insert g' (set db)"
  by (auto simp: commit_update_def)

lemma set_commit_delete: "set (commit_delete gid db) \<subseteq> set db"
  by (auto simp: commit_delete_def)

text \<open>The key of a new row is larger than every key in the table, so it is new.\<close>

lemma fold_max_ge_init: "(a::int) \<le> fold max xs a"
  by (induction xs arbitrary: a) (auto intro: order_trans [OF max.cobounded2])

lemma fold_max_ge_elem: "(x::int) \<in> set xs \<Longrightarrow> x \<le> fold max xs a"
  by (induction xs arbitrary: a) (auto intro: order_trans [OF max.cobounded1 fold_max_ge_init])

lemma next_id_greater: "g \<in> set db \<Longrightarrow> goal_id g < next_id db"
proof (cases db)
  case Nil
  assume "g \<in> set db"
  with Nil show ?thesis by simp
next
  case (Cons h hs)
  assume "g \<in> set db"
  with Cons have "g = h \<or> goal_id g \<in> set (map goal_id hs)" by auto
  then have "goal_id g \<le> fold max (map goal_id hs) (goal_id h)"
    using fold_max_ge_init fold_max_ge_elem by blast
  with Cons show ?thesis by simp
qed

lemma next_id_fresh: "next_id db \<notin> goal_id ` set db"
  using next_id_greater by fastforce

section \<open>Joining and splitting the milestones\<close>

text \<open>Splitting a joined list gives the list back when no element contains the separator
  and the list is not empty. The join of a list is the empty string for the empty list
  and for the list of one empty string, and for no other list.\<close>

lemma str_split_no_sep: "c \<notin> set x \<Longrightarrow> str_split c x = [x]"
  by (induction x) auto

lemma str_split_piece: "c \<notin> set x \<Longrightarrow> str_split c (x @ c # rest) = x # str_split c rest"
  by (induction x) auto

lemma str_split_join:
  "xs \<noteq> [] \<Longrightarrow> \<forall>x\<in>set xs. c \<notin> set x \<Longrightarrow> str_split c (str_join [c] xs) = xs"
proof (induction "[c]" xs rule: str_join.induct)
  case 1
  then show ?case by simp
next
  case (2 x)
  then show ?case by (simp add: str_split_no_sep)
next
  case (3 x y ys)
  then show ?case by (simp add: str_split_piece)
qed

lemma str_join_Nil_iff: "str_join [c] xs = [] \<longleftrightarrow> xs = [] \<or> xs = [[]]"
  by (induction "[c]" xs rule: str_join.induct) auto

lemma milestones_list_join:
  assumes "\<forall>x\<in>set xs. CHR '','' \<notin> set x" and "xs \<noteq> [[]]"
  shows "milestones_list (str_join '','' xs) = xs"
proof (cases "xs = []")
  case True
  then show ?thesis by (simp add: milestones_list_def)
next
  case False
  with assms(2) have "str_join '','' xs \<noteq> []" by (simp add: str_join_Nil_iff)
  with False assms(1) show ?thesis by (simp add: milestones_list_def str_split_join)
qed

section \<open>What each handler computes\<close>

text \<open>POST with an \<open>estimated_days\<close> in range: the reply is the validation error, and the
  row is in the table. Out of range: \<open>OverflowError\<close>, and no row is added. So a goal is
  created exactly when the \<open>estimated_days\<close> of the request is in range.\<close>

lemma create_goal_result:
  assumes "int64 (req_estimated_days goal)"
  shows "create_goal goal db =
     (Inl ResponseValidationError,
      db @ [\<lparr>goal_id = next_id db,
             title = req_title goal,
             description = req_description goal,
             milestones = str_join '','' (req_milestones goal),
             progress = req_progress goal,
             estimated_days = req_estimated_days goal,
             elapsed_days = 0\<rparr>])"
  using assms by (simp add: create_goal_def from_orm_def bind_integer_def)

lemma create_goal_overflow:
  assumes "\<not> int64 (req_estimated_days goal)"
  shows "create_goal goal db = (Inl OverflowError, db)"
  using assms by (simp add: create_goal_def bind_integer_def)

lemma create_goal_stores_iff:
  "snd (create_goal goal db) \<noteq> db \<longleftrightarrow> int64 (req_estimated_days goal)"
  by (cases "int64 (req_estimated_days goal)")
    (simp_all add: create_goal_result create_goal_overflow)

text \<open>PUT increment on a row below its estimate: the result when the estimate is not zero,
  with the assignment of 100 folded into the value of \<open>progress\<close>, and the result when
  it is zero (which needs a negative \<open>elapsed_days\<close>).\<close>

lemma increment_progress_found:
  assumes "query_first gid db = Inr (Some g)"
    and "elapsed_days g < estimated_days g"
    and "estimated_days g \<noteq> 0"
  shows "increment_progress gid db =
           (let g' = g\<lparr>elapsed_days := elapsed_days g + 1,
                       progress := (if estimated_days g \<le> elapsed_days g + 1 then 100
                                    else real_of_int (elapsed_days g + 1) /
                                         real_of_int (estimated_days g) * 100)\<rparr>
            in (Inr (Updated_goal (goal_dict g')), commit_update g' db))"
  using assms by (simp add: increment_progress_def true_div_def Let_def)

lemma increment_progress_zero_division:
  assumes "query_first gid db = Inr (Some g)"
    and "elapsed_days g < estimated_days g"
    and "estimated_days g = 0"
  shows "increment_progress gid db = (Inl ZeroDivisionError, db)"
  using assms by (simp add: increment_progress_def true_div_def Let_def)

text \<open>The table each writing handler leaves: the table it was given, or that table with
  one row added, removed or replaced.\<close>

lemma create_goal_table:
  "snd (create_goal goal db) = db \<or>
   (\<exists>g. snd (create_goal goal db) = db @ [g] \<and> goal_id g = next_id db \<and>
        elapsed_days g = 0 \<and> int64 (estimated_days g))"
  by (cases "int64 (req_estimated_days goal)")
    (simp_all add: create_goal_result create_goal_overflow)

lemma delete_goal_table:
  "snd (delete_goal gid db) = db \<or> snd (delete_goal gid db) = commit_delete gid db"
proof (cases "query_first gid db")
  case (Inl e)
  then show ?thesis by (simp add: delete_goal_def)
next
  case (Inr found)
  then show ?thesis
    using query_first_SomeD [of gid db]
    by (cases found) (simp_all add: delete_goal_def)
qed

lemma increment_progress_table:
  "snd (increment_progress gid db) = db \<or>
   (\<exists>g p. g \<in> set db \<and>
      snd (increment_progress gid db) =
        commit_update (g\<lparr>elapsed_days := elapsed_days g + 1, progress := p\<rparr>) db)"
proof (cases "query_first gid db")
  case (Inl e)
  then show ?thesis by (simp add: increment_progress_def)
next
  case (Inr found)
  show ?thesis
  proof (cases found)
    case None
    with Inr show ?thesis by (simp add: increment_progress_def)
  next
    case (Some g)
    with Inr have row: "query_first gid db = Inr (Some g)" by simp
    then have mem: "g \<in> set db" using query_first_SomeD by blast
    show ?thesis
    proof (cases "elapsed_days g < estimated_days g \<and> estimated_days g \<noteq> 0")
      case True
      then have "snd (increment_progress gid db) =
          commit_update (g\<lparr>elapsed_days := elapsed_days g + 1,
                          progress := (if estimated_days g \<le> elapsed_days g + 1 then 100
                                       else real_of_int (elapsed_days g + 1) /
                                            real_of_int (estimated_days g) * 100)\<rparr>) db"
        using increment_progress_found [OF row] by (simp add: Let_def)
      with mem show ?thesis by blast
    next
      case False
      with row show ?thesis
        by (auto simp: increment_progress_def true_div_def Let_def)
    qed
  qed
qed

lemma increment_goal_progress_table:
  "snd (increment_goal_progress gid db) = db \<or>
   (\<exists>g p. g \<in> set db \<and>
      snd (increment_goal_progress gid db) =
        commit_update (g\<lparr>elapsed_days := elapsed_days g + 1, progress := p\<rparr>) db)"
proof (cases "query_first gid db")
  case (Inl e)
  then show ?thesis by (simp add: increment_goal_progress_def)
next
  case (Inr found)
  show ?thesis
  proof (cases found)
    case None
    with Inr show ?thesis by (simp add: increment_goal_progress_def)
  next
    case (Some g)
    with Inr have row: "query_first gid db = Inr (Some g)" by simp
    then have mem: "g \<in> set db" using query_first_SomeD by blast
    show ?thesis
    proof (cases "estimated_days g = 0")
      case True
      with row show ?thesis
        by (simp add: increment_goal_progress_def true_div_def Let_def)
    next
      case False
      with row have "snd (increment_goal_progress gid db) =
          commit_update (g\<lparr>elapsed_days := elapsed_days g + 1,
                          progress := real_of_int (elapsed_days g + 1) /
                                      real_of_int (estimated_days g) * 100\<rparr>) db"
        by (simp add: increment_goal_progress_def true_div_def Let_def)
      with mem show ?thesis by blast
    qed
  qed
qed

lemma update_goal_table:
  "snd (update_goal gid goal db) = db \<or>
   (\<exists>g'. snd (update_goal gid goal db) = commit_update g' db \<and>
         elapsed_days g' = 0 \<and> int64 (estimated_days g'))"
proof (cases "query_first gid db")
  case (Inl e)
  then show ?thesis by (simp add: update_goal_def)
next
  case (Inr found)
  show ?thesis
  proof (cases found)
    case None
    with Inr show ?thesis by (simp add: update_goal_def)
  next
    case (Some g)
    with Inr show ?thesis
      by (cases "int64 (req_estimated_days goal)")
        (auto simp: update_goal_def Let_def bind_integer_def)
  qed
qed

section \<open>Invariants of the reachable tables\<close>

text \<open>A property of rows that holds of the row POST adds, that PUT's replacement row
  has, and that an increment keeps, holds of every row of every reachable table. The
  three instances: \<open>elapsed_days\<close> is at or above 0, and \<open>estimated_days\<close> is in the
  signed 64-bit range.\<close>

lemma reachable_elapsed_nonneg:
  "reachable db \<Longrightarrow> \<forall>g\<in>set db. 0 \<le> elapsed_days g"
proof (induction rule: reachable.induct)
  case reach_init
  show ?case by simp
next
  case (reach_create db goal)
  from reach_create.IH create_goal_table [of goal db] show ?case by auto
next
  case (reach_delete db gid)
  from reach_delete.IH delete_goal_table [of gid db] set_commit_delete [of gid db]
  show ?case by auto
next
  case (reach_increment db gid)
  from reach_increment.IH increment_progress_table [of gid db] set_commit_update
  show ?case by fastforce
next
  case (reach_patch db gid)
  from reach_patch.IH increment_goal_progress_table [of gid db] set_commit_update
  show ?case by fastforce
next
  case (reach_update db gid goal)
  from reach_update.IH update_goal_table [of gid goal db] set_commit_update
  show ?case by fastforce
qed

lemma reachable_estimated_int64:
  "reachable db \<Longrightarrow> \<forall>g\<in>set db. int64 (estimated_days g)"
proof (induction rule: reachable.induct)
  case reach_init
  show ?case by simp
next
  case (reach_create db goal)
  from reach_create.IH create_goal_table [of goal db] show ?case by auto
next
  case (reach_delete db gid)
  from reach_delete.IH delete_goal_table [of gid db] set_commit_delete [of gid db]
  show ?case by auto
next
  case (reach_increment db gid)
  from reach_increment.IH increment_progress_table [of gid db] set_commit_update
  show ?case by fastforce
next
  case (reach_patch db gid)
  from reach_patch.IH increment_goal_progress_table [of gid db] set_commit_update
  show ?case by fastforce
next
  case (reach_update db gid goal)
  from reach_update.IH update_goal_table [of gid goal db] set_commit_update
  show ?case by fastforce
qed

text \<open>The keys of a reachable table are pairwise different, so \<open>query_first\<close> finds the
  one row with the key.\<close>

lemma reachable_distinct_ids: "reachable db \<Longrightarrow> distinct (map goal_id db)"
proof (induction rule: reachable.induct)
  case reach_init
  show ?case by simp
next
  case (reach_create db goal)
  from reach_create.IH create_goal_table [of goal db] next_id_fresh [of db]
  show ?case by auto
next
  case (reach_delete db gid)
  from reach_delete.IH delete_goal_table [of gid db]
  show ?case by (auto simp: commit_delete_def distinct_map_filter)
next
  case (reach_increment db gid)
  from reach_increment.IH increment_progress_table [of gid db]
  show ?case by (auto simp: map_goal_id_commit_update)
next
  case (reach_patch db gid)
  from reach_patch.IH increment_goal_progress_table [of gid db]
  show ?case by (auto simp: map_goal_id_commit_update)
next
  case (reach_update db gid goal)
  from reach_update.IH update_goal_table [of gid goal db]
  show ?case by (auto simp: map_goal_id_commit_update)
qed

text \<open>In a reachable table the strict increment of a row below its estimate always
  succeeds.\<close>

lemma increment_progress_succeeds_reachable:
  assumes "reachable db"
    and "query_first gid db = Inr (Some g)"
    and "elapsed_days g < estimated_days g"
  shows "\<exists>r db'. increment_progress gid db = (Inr r, db')"
proof -
  from assms(2) have "g \<in> set db" using query_first_SomeD by blast
  with assms(1) have "0 \<le> elapsed_days g" using reachable_elapsed_nonneg by blast
  with assms(3) have "estimated_days g \<noteq> 0" by simp
  from increment_progress_found [OF assms(2,3) this] show ?thesis by (simp add: Let_def)
qed

text \<open>A request other than POST adds no key to the table, and neither does a run of
  such requests.\<close>

lemma serve_keys:
  assumes "\<not> is_post r"
  shows "goal_id ` set (serve r db) \<subseteq> goal_id ` set db"
proof (cases r)
  case (Post goal)
  with assms show ?thesis by simp
next
  case (Delete gid)
  with delete_goal_table [of gid db] set_commit_delete [of gid db] show ?thesis by auto
next
  case (Put_increment gid)
  have "map goal_id (snd (increment_progress gid db)) = map goal_id db"
    using increment_progress_table [of gid db] by (auto simp: map_goal_id_commit_update)
  then have "set (map goal_id (snd (increment_progress gid db))) = set (map goal_id db)"
    by (rule arg_cong)
  with Put_increment show ?thesis by simp
next
  case (Patch_increment gid)
  have "map goal_id (snd (increment_goal_progress gid db)) = map goal_id db"
    using increment_goal_progress_table [of gid db] by (auto simp: map_goal_id_commit_update)
  then have "set (map goal_id (snd (increment_goal_progress gid db))) = set (map goal_id db)"
    by (rule arg_cong)
  with Patch_increment show ?thesis by simp
next
  case (Put gid goal)
  have "map goal_id (snd (update_goal gid goal db)) = map goal_id db"
    using update_goal_table [of gid goal db] by (auto simp: map_goal_id_commit_update)
  then have "set (map goal_id (snd (update_goal gid goal db))) = set (map goal_id db)"
    by (rule arg_cong)
  with Put show ?thesis by simp
qed

lemma serve_all_keys:
  "\<forall>r\<in>set rs. \<not> is_post r \<Longrightarrow> goal_id ` set (serve_all rs db) \<subseteq> goal_id ` set db"
proof (induction rs arbitrary: db)
  case Nil
  show ?case by simp
next
  case (Cons r rs)
  then have "goal_id ` set (serve_all rs (serve r db)) \<subseteq> goal_id ` set (serve r db)"
    by simp
  moreover from Cons.prems have "goal_id ` set (serve r db) \<subseteq> goal_id ` set db"
    by (simp add: serve_keys)
  ultimately show ?case by simp
qed

section \<open>The claims\<close>

subsection \<open>C1: the strict increment below the estimate\<close>

text \<open>Claim C1. For a stored goal \<open>g\<close> with \<open>elapsed_days g < estimated_days g\<close>, a
  successful PUT increment returns and stores the goal with \<open>elapsed_days\<close> one larger
  and \<open>progress\<close> equal to the new \<open>elapsed_days\<close> divided by \<open>estimated_days\<close>,
  times 100. The row is the one found under the key afterwards, and the rows under all
  other keys are as before.\<close>

theorem increment_progress_advances:
  assumes "query_first gid db = Inr (Some g)"
    and "elapsed_days g < estimated_days g"
    and "increment_progress gid db = (Inr r, db')"
  shows "\<exists>g'. g' = g\<lparr>elapsed_days := elapsed_days g + 1,
                       progress := real_of_int (elapsed_days g + 1) /
                                   real_of_int (estimated_days g) * 100\<rparr>
             \<and> r = Updated_goal (goal_dict g')
             \<and> db' = commit_update g' db
             \<and> query_first gid db' = Inr (Some g')
             \<and> (\<forall>j. j \<noteq> gid \<longrightarrow> query_first j db' = query_first j db)"
proof -
  have nz: "estimated_days g \<noteq> 0"
    using assms increment_progress_zero_division [of gid db g] by auto
  define g' where "g' = g\<lparr>elapsed_days := elapsed_days g + 1,
                       progress := real_of_int (elapsed_days g + 1) /
                                   real_of_int (estimated_days g) * 100\<rparr>"
  have clamp: "(if estimated_days g \<le> elapsed_days g + 1 then 100
                else real_of_int (elapsed_days g + 1) / real_of_int (estimated_days g) * 100)
               = real_of_int (elapsed_days g + 1) / real_of_int (estimated_days g) * 100"
  proof (cases "estimated_days g \<le> elapsed_days g + 1")
    case True
    with assms(2) have "estimated_days g = elapsed_days g + 1" by simp
    with nz show ?thesis by simp
  next
    case False
    then show ?thesis by simp
  qed
  have id: "goal_id g' = gid"
    using query_first_SomeD [OF assms(1)] by (simp add: g'_def)
  have "increment_progress gid db = (Inr (Updated_goal (goal_dict g')), commit_update g' db)"
    using increment_progress_found [OF assms(1,2) nz] clamp by (simp add: Let_def g'_def)
  with assms(3) have r: "r = Updated_goal (goal_dict g')" and db': "db' = commit_update g' db"
    by simp_all
  have "query_first gid db' = Inr (Some g')"
    unfolding db' using assms(1) id by (rule query_first_commit_update_same)
  moreover have "\<forall>j. j \<noteq> gid \<longrightarrow> query_first j db' = query_first j db"
    unfolding db' using id by (simp add: query_first_commit_update_other)
  ultimately show ?thesis using r db' g'_def by blast
qed

text \<open>The theorem at a goal of 8 estimated days, none elapsed: one day elapsed, progress
  12.5.\<close>

theorem increment_progress_advances_witness:
  "query_first 1
     [\<lparr>goal_id = 1, title = ''t'', description = ''d'', milestones = ''a,b'',
       progress = 0, estimated_days = 8, elapsed_days = 0\<rparr>]
     = Inr (Some \<lparr>goal_id = 1, title = ''t'', description = ''d'', milestones = ''a,b'',
             progress = 0, estimated_days = 8, elapsed_days = 0\<rparr>)
   \<and> (0::int) < 8
   \<and> increment_progress 1
        [\<lparr>goal_id = 1, title = ''t'', description = ''d'', milestones = ''a,b'',
          progress = 0, estimated_days = 8, elapsed_days = 0\<rparr>]
     = (Inr (Updated_goal
              \<lparr>resp_id = 1, resp_title = ''t'', resp_description = ''d'',
               resp_milestones = [''a'', ''b''], resp_progress = 12.5,
               resp_estimated_days = 8, resp_elapsed_days = 1\<rparr>),
        [\<lparr>goal_id = 1, title = ''t'', description = ''d'', milestones = ''a,b'',
          progress = 12.5, estimated_days = 8, elapsed_days = 1\<rparr>])"
proof -
  let ?g = "\<lparr>goal_id = 1, title = ''t'', description = ''d'', milestones = ''a,b'',
             progress = 0, estimated_days = 8, elapsed_days = 0\<rparr>"
  have found: "query_first 1 [?g] = Inr (Some ?g)"
    by (simp add: query_first_def bind_integer_def int64_def)
  have guard: "elapsed_days ?g < estimated_days ?g"
    by simp
  obtain r db' where res: "increment_progress 1 [?g] = (Inr r, db')"
    by (simp add: increment_progress_def found true_div_def Let_def)
  from increment_progress_advances [OF found guard res] res found show ?thesis
    by (simp add: goal_dict_def milestones_list_def commit_update_def)
qed

subsection \<open>C2: the strict increment at or above the estimate\<close>

text \<open>Claim C2. For a stored goal with \<open>elapsed_days \<ge> estimated_days\<close>, the PUT
  increment raises \<open>HTTPException(400, "Goal already completed")\<close> and the table after
  the call is the table before it.\<close>

theorem increment_progress_complete_unchanged:
  assumes "query_first gid db = Inr (Some g)"
    and "estimated_days g \<le> elapsed_days g"
  shows "increment_progress gid db = (Inl (HTTPException 400 ''Goal already completed''), db)
         \<and> status_code (fst (increment_progress gid db)) = 400"
  using assms by (simp add: increment_progress_def)

theorem increment_progress_complete_unchanged_witness:
  "query_first 1
     [\<lparr>goal_id = 1, title = ''t'', description = ''d'', milestones = ''a,b'',
       progress = 100, estimated_days = 10, elapsed_days = 10\<rparr>]
     = Inr (Some \<lparr>goal_id = 1, title = ''t'', description = ''d'', milestones = ''a,b'',
             progress = 100, estimated_days = 10, elapsed_days = 10\<rparr>)
   \<and> (10::int) \<le> 10
   \<and> increment_progress 1
        [\<lparr>goal_id = 1, title = ''t'', description = ''d'', milestones = ''a,b'',
          progress = 100, estimated_days = 10, elapsed_days = 10\<rparr>]
     = (Inl (HTTPException 400 ''Goal already completed''),
        [\<lparr>goal_id = 1, title = ''t'', description = ''d'', milestones = ''a,b'',
          progress = 100, estimated_days = 10, elapsed_days = 10\<rparr>])"
proof -
  let ?g = "\<lparr>goal_id = 1, title = ''t'', description = ''d'', milestones = ''a,b'',
             progress = 100, estimated_days = 10, elapsed_days = 10\<rparr>"
  have found: "query_first 1 [?g] = Inr (Some ?g)"
    by (simp add: query_first_def bind_integer_def int64_def)
  have guard: "estimated_days ?g \<le> elapsed_days ?g"
    by simp
  from increment_progress_complete_unchanged [OF found guard] found show ?thesis
    by simp
qed

subsection \<open>C3: milestones through POST and GET\<close>

text \<open>Claim C3, as stated, says that for milestone labels without a comma GET returns the
  labels given to POST, in order. It fails for the list of one empty label: its join is
  the empty string, which \<open>milestones_list\<close> decodes as no label at all.\<close>

theorem create_then_list_milestones_counterexample:
  "CHR '','' \<notin> set '''' \<and>
   map resp_milestones (get_goals (snd (create_goal
       \<lparr>req_title = ''t'', req_description = ''d'', req_milestones = [''''],
        req_progress = 0, req_estimated_days = 10\<rparr> []))) = [[]]
   \<and> [] \<noteq> ['''']"
  by (simp add: create_goal_def Let_def bind_integer_def int64_def get_goals_def
      goal_dict_def milestones_list_def)

text \<open>Claim C3, amended. For a goal that POST creates (the table after the request is
  not the table before it; by \<open>create_goal_stores_iff\<close> these are the requests whose
  \<open>estimated_days\<close> SQLite can store): when no label contains a comma and the list of
  labels is not the list of one empty label, GET after POST returns what GET returned
  before, followed by the new goal, whose milestones are the labels given to POST in
  the same order; the new goal's key is the key of no earlier goal.\<close>

theorem create_then_list_milestones:
  assumes "snd (create_goal goal db) \<noteq> db"
    and "\<forall>m\<in>set (req_milestones goal). CHR '','' \<notin> set m"
    and "req_milestones goal \<noteq> [[]]"
  shows "get_goals (snd (create_goal goal db)) =
           get_goals db @
             [\<lparr>resp_id = next_id db,
               resp_title = req_title goal,
               resp_description = req_description goal,
               resp_milestones = req_milestones goal,
               resp_progress = req_progress goal,
               resp_estimated_days = req_estimated_days goal,
               resp_elapsed_days = 0\<rparr>]
         \<and> next_id db \<notin> resp_id ` set (get_goals db)"
proof -
  from assms(1) have range: "int64 (req_estimated_days goal)"
    by (simp add: create_goal_stores_iff)
  have "resp_id ` set (get_goals db) = goal_id ` set db"
    by (auto simp: get_goals_def goal_dict_def image_iff)
  then have "next_id db \<notin> resp_id ` set (get_goals db)"
    using next_id_fresh by simp
  moreover have "milestones_list (str_join '','' (req_milestones goal)) = req_milestones goal"
    using assms(2,3) by (rule milestones_list_join)
  ultimately show ?thesis
    by (simp add: create_goal_result [OF range] get_goals_def goal_dict_def)
qed

theorem create_then_list_milestones_witness:
  "snd (create_goal
       \<lparr>req_title = ''t'', req_description = ''d'', req_milestones = [''a'', ''b'', ''c''],
        req_progress = 0, req_estimated_days = 10\<rparr> []) \<noteq> [] \<and>
   CHR '','' \<notin> set ''a'' \<and> CHR '','' \<notin> set ''b'' \<and> CHR '','' \<notin> set ''c'' \<and>
   [''a'', ''b'', ''c''] \<noteq> [[]] \<and>
   get_goals (snd (create_goal
       \<lparr>req_title = ''t'', req_description = ''d'', req_milestones = [''a'', ''b'', ''c''],
        req_progress = 0, req_estimated_days = 10\<rparr> [])) =
     [\<lparr>resp_id = 1, resp_title = ''t'', resp_description = ''d'',
       resp_milestones = [''a'', ''b'', ''c''], resp_progress = 0,
       resp_estimated_days = 10, resp_elapsed_days = 0\<rparr>]"
proof -
  let ?goal = "\<lparr>req_title = ''t'', req_description = ''d'',
                req_milestones = [''a'', ''b'', ''c''],
                req_progress = 0, req_estimated_days = 10\<rparr>"
  have created: "snd (create_goal ?goal []) \<noteq> []"
    by (simp add: create_goal_def Let_def bind_integer_def int64_def)
  from create_then_list_milestones [OF created] created show ?thesis
    by (simp add: get_goals_def)
qed

subsection \<open>C4: the reply of POST\<close>

text \<open>Claim C4 says that POST returns the created goal with its milestones as the list of
  labels supplied. The handler returns the row, whose \<open>milestones\<close> is the joined
  string, where the other handlers return \<open>milestones_list\<close> of it; a string is not a
  \<open>List[str]\<close>, so the reply is the validation error (status 500). The row itself is
  stored as the claim says: new key, \<open>elapsed_days = 0\<close>, the progress supplied. Here
  on the empty table:\<close>

theorem create_goal_response_invalid:
  "create_goal
     \<lparr>req_title = ''Learn Go'', req_description = ''d'',
      req_milestones = [''Syntax'', ''Concurrency''],
      req_progress = 0, req_estimated_days = 10\<rparr> []
   = (Inl ResponseValidationError,
      [\<lparr>goal_id = 1, title = ''Learn Go'', description = ''d'',
        milestones = ''Syntax,Concurrency'', progress = 0,
        estimated_days = 10, elapsed_days = 0\<rparr>])
   \<and> status_code (Inl ResponseValidationError :: error + CareerGoalResponse) = 500"
  by (simp add: create_goal_def from_orm_def bind_integer_def int64_def)

subsection \<open>C5: the full update\<close>

text \<open>Claim C5, as stated, says that PUT \<open>/goals/{id}/\<close> overwrites the stored goal
  with the values supplied, for every existing goal and every request. It fails for an
  \<open>estimated_days\<close> that SQLite cannot store: with \<open>estimated_days = 2^63\<close> the commit
  raises \<open>OverflowError\<close> (status 500) and the row stays as it was.\<close>

theorem update_goal_replaces_counterexample:
  "query_first 1
     [\<lparr>goal_id = 1, title = ''t'', description = ''d'', milestones = ''a,b'',
       progress = 50, estimated_days = 10, elapsed_days = 5\<rparr>]
     = Inr (Some \<lparr>goal_id = 1, title = ''t'', description = ''d'', milestones = ''a,b'',
             progress = 50, estimated_days = 10, elapsed_days = 5\<rparr>)
   \<and> update_goal 1
        \<lparr>req_title = ''u'', req_description = ''e'', req_milestones = [''x'', ''y'', ''z''],
         req_progress = 0, req_estimated_days = 9223372036854775808\<rparr>
        [\<lparr>goal_id = 1, title = ''t'', description = ''d'', milestones = ''a,b'',
          progress = 50, estimated_days = 10, elapsed_days = 5\<rparr>]
     = (Inl OverflowError,
        [\<lparr>goal_id = 1, title = ''t'', description = ''d'', milestones = ''a,b'',
          progress = 50, estimated_days = 10, elapsed_days = 5\<rparr>])
   \<and> status_code (Inl OverflowError :: error + body) = 500"
  by (simp add: update_goal_def query_first_def bind_integer_def int64_def Let_def)

text \<open>Claim C5, amended. For a stored goal \<open>g\<close> and a request whose \<open>estimated_days\<close>
  is in the signed 64-bit range, PUT \<open>/goals/{id}/\<close> stores and returns the row with
  title, description, milestones and estimated days from the request,
  \<open>elapsed_days = 0\<close>, and the key and the \<open>progress\<close> of \<open>g\<close>; rows under other
  keys are as before.\<close>

theorem update_goal_replaces:
  assumes "query_first gid db = Inr (Some g)"
    and "int64 (req_estimated_days goal)"
  shows "\<exists>g'. g' = \<lparr>goal_id = goal_id g,
                      title = req_title goal,
                      description = req_description goal,
                      milestones = str_join '','' (req_milestones goal),
                      progress = progress g,
                      estimated_days = req_estimated_days goal,
                      elapsed_days = 0\<rparr>
             \<and> update_goal gid goal db = (Inr (Updated_goal (goal_dict g')), commit_update g' db)
             \<and> query_first gid (snd (update_goal gid goal db)) = Inr (Some g')
             \<and> (\<forall>j. j \<noteq> gid \<longrightarrow> query_first j (snd (update_goal gid goal db)) = query_first j db)"
proof -
  define g' where "g' = \<lparr>goal_id = goal_id g,
                      title = req_title goal,
                      description = req_description goal,
                      milestones = str_join '','' (req_milestones goal),
                      progress = progress g,
                      estimated_days = req_estimated_days goal,
                      elapsed_days = 0\<rparr>"
  have upd: "g\<lparr>title := req_title goal,
               description := req_description goal,
               milestones := str_join '','' (req_milestones goal),
               estimated_days := req_estimated_days goal,
               elapsed_days := 0\<rparr> = g'"
    by (simp add: g'_def)
  have bound: "bind_integer (estimated_days g') = Inr (estimated_days g')"
    using assms(2) by (simp add: bind_integer_def g'_def)
  have res: "update_goal gid goal db = (Inr (Updated_goal (goal_dict g')), commit_update g' db)"
    using assms(1) bound by (simp add: update_goal_def Let_def upd)
  have id: "goal_id g' = gid"
    using query_first_SomeD [OF assms(1)] by (simp add: g'_def)
  have "query_first gid (commit_update g' db) = Inr (Some g')"
    using assms(1) id by (rule query_first_commit_update_same)
  moreover have "\<forall>j. j \<noteq> gid \<longrightarrow> query_first j (commit_update g' db) = query_first j db"
    using id by (simp add: query_first_commit_update_other)
  ultimately show ?thesis using res g'_def by simp
qed

theorem update_goal_replaces_witness:
  "query_first 1
     [\<lparr>goal_id = 1, title = ''t'', description = ''d'', milestones = ''a,b'',
       progress = 50, estimated_days = 10, elapsed_days = 5\<rparr>]
     = Inr (Some \<lparr>goal_id = 1, title = ''t'', description = ''d'', milestones = ''a,b'',
             progress = 50, estimated_days = 10, elapsed_days = 5\<rparr>)
   \<and> int64 4
   \<and> update_goal 1
        \<lparr>req_title = ''u'', req_description = ''e'', req_milestones = [''x'', ''y'', ''z''],
         req_progress = 77, req_estimated_days = 4\<rparr>
        [\<lparr>goal_id = 1, title = ''t'', description = ''d'', milestones = ''a,b'',
          progress = 50, estimated_days = 10, elapsed_days = 5\<rparr>]
     = (Inr (Updated_goal
              \<lparr>resp_id = 1, resp_title = ''u'', resp_description = ''e'',
               resp_milestones = [''x'', ''y'', ''z''], resp_progress = 50,
               resp_estimated_days = 4, resp_elapsed_days = 0\<rparr>),
        [\<lparr>goal_id = 1, title = ''u'', description = ''e'', milestones = ''x,y,z'',
          progress = 50, estimated_days = 4, elapsed_days = 0\<rparr>])"
proof -
  let ?g = "\<lparr>goal_id = 1, title = ''t'', description = ''d'', milestones = ''a,b'',
             progress = 50, estimated_days = 10, elapsed_days = 5\<rparr>"
  let ?goal = "\<lparr>req_title = ''u'', req_description = ''e'',
                req_milestones = [''x'', ''y'', ''z''],
                req_progress = 77, req_estimated_days = 4\<rparr>"
  have found: "query_first 1 [?g] = Inr (Some ?g)"
    by (simp add: query_first_def bind_integer_def int64_def)
  have range: "int64 (req_estimated_days ?goal)"
    by (simp add: int64_def)
  from update_goal_replaces [OF found range] found range show ?thesis
    by (simp add: goal_dict_def milestones_list_def commit_update_def)
qed

subsection \<open>C6: the lenient increment of a missing goal\<close>

text \<open>Claim C6, as stated, says that the PATCH increment returns normally for every key
  that no stored goal has. It fails for a key that cannot be bound: for the key \<open>2^63\<close>
  the lookup raises \<open>OverflowError\<close>, and the reply has status 500.\<close>

theorem increment_goal_progress_absent_counterexample:
  "(9223372036854775808::int) \<notin> goal_id `
      set [\<lparr>goal_id = 1, title = ''t'', description = ''d'', milestones = ''a,b'',
             progress = 50, estimated_days = 10, elapsed_days = 5\<rparr>]
   \<and> increment_goal_progress 9223372036854775808
        [\<lparr>goal_id = 1, title = ''t'', description = ''d'', milestones = ''a,b'',
          progress = 50, estimated_days = 10, elapsed_days = 5\<rparr>]
     = (Inl OverflowError,
        [\<lparr>goal_id = 1, title = ''t'', description = ''d'', milestones = ''a,b'',
          progress = 50, estimated_days = 10, elapsed_days = 5\<rparr>])
   \<and> status_code (Inl OverflowError :: error + body) = 500"
  by (simp add: increment_goal_progress_def query_first_def bind_integer_def int64_def)

text \<open>Claim C6, amended. For a key in the signed 64-bit range that no stored goal has,
  the PATCH increment returns normally (status 200) with the body
  \<open>{"message": "Goal not found"}\<close>, and the table is unchanged.\<close>

theorem increment_goal_progress_absent:
  assumes "int64 gid"
    and "gid \<notin> goal_id ` set db"
  shows "increment_goal_progress gid db = (Inr (Message ''Goal not found''), db)
         \<and> status_code (fst (increment_goal_progress gid db)) = 200"
proof -
  from assms have "query_first gid db = Inr None" by (simp add: query_first_None_iff)
  then show ?thesis by (simp add: increment_goal_progress_def)
qed

theorem increment_goal_progress_absent_witness:
  "int64 2
   \<and> (2::int) \<notin> goal_id `
      set [\<lparr>goal_id = 1, title = ''t'', description = ''d'', milestones = ''a,b'',
             progress = 50, estimated_days = 10, elapsed_days = 5\<rparr>]
   \<and> increment_goal_progress 2
        [\<lparr>goal_id = 1, title = ''t'', description = ''d'', milestones = ''a,b'',
          progress = 50, estimated_days = 10, elapsed_days = 5\<rparr>]
     = (Inr (Message ''Goal not found''),
        [\<lparr>goal_id = 1, title = ''t'', description = ''d'', milestones = ''a,b'',
          progress = 50, estimated_days = 10, elapsed_days = 5\<rparr>])"
proof -
  let ?g = "\<lparr>goal_id = 1, title = ''t'', description = ''d'', milestones = ''a,b'',
             progress = 50, estimated_days = 10, elapsed_days = 5\<rparr>"
  have range: "int64 2"
    by (simp add: int64_def)
  have absent: "2 \<notin> goal_id ` set [?g]"
    by simp
  from increment_goal_progress_absent [OF range absent] range absent show ?thesis
    by simp
qed

subsection \<open>C7: the lenient increment of a stored goal\<close>

text \<open>Claim C7, as stated, says that whenever \<open>estimated_days\<close> is not zero and
  \<open>elapsed_days \<ge> estimated_days\<close>, the progress after the PATCH increment exceeds 100.
  It fails for a negative estimate: with \<open>estimated_days = -5\<close> and
  \<open>elapsed_days = 0\<close> the progress after the call is \<open>-20\<close>.\<close>

theorem increment_goal_progress_unbounded_counterexample:
  "query_first 1
     [\<lparr>goal_id = 1, title = ''t'', description = ''d'', milestones = ''a,b'',
       progress = 0, estimated_days = - 5, elapsed_days = 0\<rparr>]
     = Inr (Some \<lparr>goal_id = 1, title = ''t'', description = ''d'', milestones = ''a,b'',
             progress = 0, estimated_days = - 5, elapsed_days = 0\<rparr>)
   \<and> (- 5::int) \<noteq> 0 \<and> (- 5::int) \<le> 0
   \<and> increment_goal_progress 1
        [\<lparr>goal_id = 1, title = ''t'', description = ''d'', milestones = ''a,b'',
          progress = 0, estimated_days = - 5, elapsed_days = 0\<rparr>]
     = (Inr (Message_goal ''Progress updated''
              \<lparr>resp_id = 1, resp_title = ''t'', resp_description = ''d'',
               resp_milestones = [''a'', ''b''], resp_progress = - 20,
               resp_estimated_days = - 5, resp_elapsed_days = 1\<rparr>),
        [\<lparr>goal_id = 1, title = ''t'', description = ''d'', milestones = ''a,b'',
          progress = - 20, estimated_days = - 5, elapsed_days = 1\<rparr>])
   \<and> \<not> (100::real) < - 20"
  by (simp add: increment_goal_progress_def query_first_def bind_integer_def int64_def
      true_div_def Let_def goal_dict_def milestones_list_def commit_update_def)

text \<open>Claim C7, amended. For a stored goal with \<open>estimated_days\<close> not zero, the PATCH
  increment succeeds whatever \<open>elapsed_days\<close> is, stores and returns the goal with
  \<open>elapsed_days\<close> one larger and \<open>progress\<close> equal to the new \<open>elapsed_days\<close>
  divided by \<open>estimated_days\<close>, times 100; when \<open>estimated_days\<close> is positive and
  \<open>elapsed_days\<close> was already at or above it, that progress exceeds 100.\<close>

theorem increment_goal_progress_unbounded:
  assumes "query_first gid db = Inr (Some g)"
    and "estimated_days g \<noteq> 0"
  shows "\<exists>g'. g' = g\<lparr>elapsed_days := elapsed_days g + 1,
                       progress := real_of_int (elapsed_days g + 1) /
                                   real_of_int (estimated_days g) * 100\<rparr>
             \<and> increment_goal_progress gid db =
                 (Inr (Message_goal ''Progress updated'' (goal_dict g')), commit_update g' db)
             \<and> query_first gid (snd (increment_goal_progress gid db)) = Inr (Some g')
             \<and> (0 < estimated_days g \<and> estimated_days g \<le> elapsed_days g
                  \<longrightarrow> 100 < progress g')"
proof -
  define g' where "g' = g\<lparr>elapsed_days := elapsed_days g + 1,
                       progress := real_of_int (elapsed_days g + 1) /
                                   real_of_int (estimated_days g) * 100\<rparr>"
  have res: "increment_goal_progress gid db =
                 (Inr (Message_goal ''Progress updated'' (goal_dict g')), commit_update g' db)"
    using assms by (simp add: increment_goal_progress_def true_div_def Let_def g'_def)
  have id: "goal_id g' = gid"
    using query_first_SomeD [OF assms(1)] by (simp add: g'_def)
  have stored: "query_first gid (commit_update g' db) = Inr (Some g')"
    using assms(1) id by (rule query_first_commit_update_same)
  have over: "100 < progress g'"
    if "0 < estimated_days g" and "estimated_days g \<le> elapsed_days g"
  proof -
    from that have "real_of_int (estimated_days g) * 100 < real_of_int (elapsed_days g + 1) * 100"
      by simp
    moreover from that(1) have "0 < real_of_int (estimated_days g)"
      by simp
    ultimately have "100 < real_of_int (elapsed_days g + 1) * 100 / real_of_int (estimated_days g)"
      by (simp only: pos_less_divide_eq mult.commute)
    then show ?thesis by (simp add: g'_def)
  qed
  show ?thesis using res stored over g'_def by simp
qed

theorem increment_goal_progress_unbounded_witness:
  "query_first 1
     [\<lparr>goal_id = 1, title = ''t'', description = ''d'', milestones = ''a,b'',
       progress = 100, estimated_days = 10, elapsed_days = 10\<rparr>]
     = Inr (Some \<lparr>goal_id = 1, title = ''t'', description = ''d'', milestones = ''a,b'',
             progress = 100, estimated_days = 10, elapsed_days = 10\<rparr>)
   \<and> (10::int) \<noteq> 0 \<and> (0::int) < 10 \<and> (10::int) \<le> 10
   \<and> increment_goal_progress 1
        [\<lparr>goal_id = 1, title = ''t'', description = ''d'', milestones = ''a,b'',
          progress = 100, estimated_days = 10, elapsed_days = 10\<rparr>]
     = (Inr (Message_goal ''Progress updated''
              \<lparr>resp_id = 1, resp_title = ''t'', resp_description = ''d'',
               resp_milestones = [''a'', ''b''], resp_progress = 110,
               resp_estimated_days = 10, resp_elapsed_days = 11\<rparr>),
        [\<lparr>goal_id = 1, title = ''t'', description = ''d'', milestones = ''a,b'',
          progress = 110, estimated_days = 10, elapsed_days = 11\<rparr>])
   \<and> (100::real) < 110"
proof -
  let ?g = "\<lparr>goal_id = 1, title = ''t'', description = ''d'', milestones = ''a,b'',
             progress = 100, estimated_days = 10, elapsed_days = 10\<rparr>"
  have found: "query_first 1 [?g] = Inr (Some ?g)"
    by (simp add: query_first_def bind_integer_def int64_def)
  have nonzero: "estimated_days ?g \<noteq> 0"
    by simp
  from increment_goal_progress_unbounded [OF found nonzero] found show ?thesis
    by (simp add: goal_dict_def milestones_list_def commit_update_def)
qed

subsection \<open>C8: DELETE\<close>

text \<open>Claim C8, as stated, fails in two places. DELETE of a key that no stored goal has
  is not always a 404: for the key \<open>2^63\<close> the lookup raises \<open>OverflowError\<close> (status
  500). And a goal with the deleted key can appear in a later GET: SQLite gives a new
  row the largest key plus one, so POST after DELETE of the row with the largest key
  creates a goal under the deleted key.\<close>

theorem delete_goal_cases_counterexample:
  "(9223372036854775808::int) \<notin> goal_id `
      set [\<lparr>goal_id = 1, title = ''t'', description = ''d'', milestones = ''a,b'',
             progress = 50, estimated_days = 10, elapsed_days = 5\<rparr>]
   \<and> delete_goal 9223372036854775808
        [\<lparr>goal_id = 1, title = ''t'', description = ''d'', milestones = ''a,b'',
          progress = 50, estimated_days = 10, elapsed_days = 5\<rparr>]
     = (Inl OverflowError,
        [\<lparr>goal_id = 1, title = ''t'', description = ''d'', milestones = ''a,b'',
          progress = 50, estimated_days = 10, elapsed_days = 5\<rparr>])
   \<and> status_code (Inl OverflowError :: error + body) = 500
   \<and> delete_goal 1
        [\<lparr>goal_id = 1, title = ''t'', description = ''d'', milestones = ''a,b'',
          progress = 50, estimated_days = 10, elapsed_days = 5\<rparr>]
     = (Inr (Message ''Goal deleted successfully''), [])
   \<and> get_goals (serve_all
        [Post \<lparr>req_title = ''u'', req_description = ''e'', req_milestones = [''x''],
               req_progress = 0, req_estimated_days = 4\<rparr>]
        (snd (delete_goal 1
           [\<lparr>goal_id = 1, title = ''t'', description = ''d'', milestones = ''a,b'',
             progress = 50, estimated_days = 10, elapsed_days = 5\<rparr>])))
     = [\<lparr>resp_id = 1, resp_title = ''u'', resp_description = ''e'',
         resp_milestones = [''x''], resp_progress = 0,
         resp_estimated_days = 4, resp_elapsed_days = 0\<rparr>]"
  by (simp add: delete_goal_def query_first_def bind_integer_def int64_def commit_delete_def
      create_goal_def Let_def get_goals_def goal_dict_def milestones_list_def)

text \<open>Claim C8, amended. For a key in the signed 64-bit range: DELETE of a key that no
  stored goal has raises \<open>HTTPException(404, "Goal not found")\<close> and leaves the table
  unchanged. DELETE of a key that a stored goal has returns
  \<open>{"message": "Goal deleted successfully"}\<close>; GET on the table it leaves returns the
  goals it returned before without those of the deleted key; and after any requests
  that follow, as long as none of them is a POST, GET returns no goal with that key.\<close>

theorem delete_goal_cases:
  assumes "int64 gid"
  shows "(gid \<notin> goal_id ` set db \<longrightarrow>
      delete_goal gid db = (Inl (HTTPException 404 ''Goal not found''), db)
      \<and> status_code (fst (delete_goal gid db)) = 404)
   \<and> (gid \<in> goal_id ` set db \<longrightarrow>
      fst (delete_goal gid db) = Inr (Message ''Goal deleted successfully'')
      \<and> get_goals (snd (delete_goal gid db)) = filter (\<lambda>r. resp_id r \<noteq> gid) (get_goals db)
      \<and> (\<forall>rs. (\<forall>r\<in>set rs. \<not> is_post r) \<longrightarrow>
            gid \<notin> resp_id ` set (get_goals (serve_all rs (snd (delete_goal gid db))))))"
proof (cases "gid \<in> goal_id ` set db")
  case False
  with assms have "query_first gid db = Inr None" by (simp add: query_first_None_iff)
  with False show ?thesis by (simp add: delete_goal_def)
next
  case True
  with assms have "query_first gid db \<noteq> Inr None" by (simp add: query_first_None_iff)
  moreover from assms have "query_first gid db \<noteq> Inl e" for e
    by (simp add: query_first_in_range)
  ultimately obtain g where found: "query_first gid db = Inr (Some g)"
    by (cases "query_first gid db") auto
  then have id: "goal_id g = gid"
    using query_first_SomeD by blast
  have res: "delete_goal gid db =
               (Inr (Message ''Goal deleted successfully''), commit_delete gid db)"
    using found id by (simp add: delete_goal_def)
  have flt: "get_goals (commit_delete gid db) = filter (\<lambda>r. resp_id r \<noteq> gid) (get_goals db)"
    by (simp add: get_goals_def commit_delete_def filter_map comp_def goal_dict_def)
  have gone: "gid \<notin> goal_id ` set (commit_delete gid db)"
    by (auto simp: commit_delete_def)
  have later: "gid \<notin> resp_id ` set (get_goals (serve_all rs (commit_delete gid db)))"
    if "\<forall>r\<in>set rs. \<not> is_post r" for rs
  proof -
    have "resp_id ` set (get_goals (serve_all rs (commit_delete gid db)))
            = goal_id ` set (serve_all rs (commit_delete gid db))"
      by (auto simp: get_goals_def goal_dict_def image_iff)
    also from that have "\<dots> \<subseteq> goal_id ` set (commit_delete gid db)"
      by (rule serve_all_keys)
    finally show ?thesis using gone by blast
  qed
  from True res flt later show ?thesis by simp
qed

theorem delete_goal_cases_witness:
  "int64 2 \<and> int64 1
   \<and> (2::int) \<notin> goal_id `
      set [\<lparr>goal_id = 1, title = ''t'', description = ''d'', milestones = ''a,b'',
             progress = 50, estimated_days = 10, elapsed_days = 5\<rparr>]
   \<and> delete_goal 2
        [\<lparr>goal_id = 1, title = ''t'', description = ''d'', milestones = ''a,b'',
          progress = 50, estimated_days = 10, elapsed_days = 5\<rparr>]
     = (Inl (HTTPException 404 ''Goal not found''),
        [\<lparr>goal_id = 1, title = ''t'', description = ''d'', milestones = ''a,b'',
          progress = 50, estimated_days = 10, elapsed_days = 5\<rparr>])
   \<and> (1::int) \<in> goal_id `
      set [\<lparr>goal_id = 1, title = ''t'', description = ''d'', milestones = ''a,b'',
             progress = 50, estimated_days = 10, elapsed_days = 5\<rparr>]
   \<and> delete_goal 1
        [\<lparr>goal_id = 1, title = ''t'', description = ''d'', milestones = ''a,b'',
          progress = 50, estimated_days = 10, elapsed_days = 5\<rparr>]
     = (Inr (Message ''Goal deleted successfully''), [])
   \<and> \<not> is_post (Patch_increment 1) \<and> \<not> is_post (Put_increment 1)
   \<and> (1::int) \<notin> resp_id ` set (get_goals (serve_all [Patch_increment 1, Put_increment 1]
        (snd (delete_goal 1
           [\<lparr>goal_id = 1, title = ''t'', description = ''d'', milestones = ''a,b'',
             progress = 50, estimated_days = 10, elapsed_days = 5\<rparr>]))))"
proof -
  let ?g = "\<lparr>goal_id = 1, title = ''t'', description = ''d'', milestones = ''a,b'',
             progress = 50, estimated_days = 10, elapsed_days = 5\<rparr>"
  have range: "int64 2" "int64 1"
    by (simp_all add: int64_def)
  have absent: "2 \<notin> goal_id ` set [?g]" and present: "1 \<in> goal_id ` set [?g]"
    by simp_all
  have store: "snd (delete_goal 1 [?g]) = []"
    by (simp add: delete_goal_def query_first_def bind_integer_def int64_def commit_delete_def)
  have run: "\<forall>r\<in>set [Patch_increment 1, Put_increment 1]. \<not> is_post r"
    by simp
  from delete_goal_cases [OF range(1), of "[?g]"] absent
  have missing: "delete_goal 2 [?g] = (Inl (HTTPException 404 ''Goal not found''), [?g])"
    by blast
  from delete_goal_cases [OF range(2), of "[?g]"] present
  have reply: "fst (delete_goal 1 [?g]) = Inr (Message ''Goal deleted successfully'')"
    and later: "\<forall>rs. (\<forall>r\<in>set rs. \<not> is_post r) \<longrightarrow>
            1 \<notin> resp_id ` set (get_goals (serve_all rs (snd (delete_goal 1 [?g]))))"
    by blast+
  from later run
  have gone: "1 \<notin> resp_id ` set (get_goals (serve_all [Patch_increment 1, Put_increment 1]
        (snd (delete_goal 1 [?g]))))"
    by blast
  from reply store have deleted: "delete_goal 1 [?g] = (Inr (Message ''Goal deleted successfully''), [])"
    by (simp add: prod_eq_iff)
  have others: "\<not> is_post (Patch_increment 1)" "\<not> is_post (Put_increment 1)"
    by simp_all
  from range absent present missing deleted others gone show ?thesis
    by (intro conjI)
qed

subsection \<open>C9: the strict increment that reaches the estimate\<close>

text \<open>Claim C9. When a successful PUT increment leaves the goal stored with
  \<open>elapsed_days = estimated_days\<close>, the stored \<open>progress\<close> is 100, and so is the
  \<open>progress\<close> in the reply.\<close>

theorem increment_progress_reaching_estimate:
  assumes "increment_progress gid db = (Inr r, db')"
    and "query_first gid db' = Inr (Some g')"
    and "elapsed_days g' = estimated_days g'"
  shows "progress g' = 100 \<and> (\<exists>v. r = Updated_goal v \<and> resp_progress v = 100)"
proof (cases "query_first gid db")
  case (Inl e)
  with assms(1) show ?thesis by (simp add: increment_progress_def)
next
  case (Inr found)
  show ?thesis
  proof (cases found)
    case None
    with Inr assms(1) show ?thesis by (simp add: increment_progress_def)
  next
    case (Some g)
    with Inr have row: "query_first gid db = Inr (Some g)" by simp
    show ?thesis
    proof (cases "elapsed_days g < estimated_days g")
      case False
      with row assms(1) show ?thesis by (simp add: increment_progress_def)
    next
      case lt: True
      show ?thesis
      proof (cases "estimated_days g = 0")
        case True
        with row lt assms(1) show ?thesis
          by (simp add: increment_progress_zero_division)
      next
        case False
        define h where "h = g\<lparr>elapsed_days := elapsed_days g + 1,
                         progress := (if estimated_days g \<le> elapsed_days g + 1 then 100
                                      else real_of_int (elapsed_days g + 1) /
                                           real_of_int (estimated_days g) * 100)\<rparr>"
        have "increment_progress gid db = (Inr (Updated_goal (goal_dict h)), commit_update h db)"
          using increment_progress_found [OF row lt False] by (simp add: Let_def h_def)
        with assms(1) have r: "r = Updated_goal (goal_dict h)" and db': "db' = commit_update h db"
          by simp_all
        have "goal_id h = gid" using query_first_SomeD [OF row] by (simp add: h_def)
        with row have "query_first gid db' = Inr (Some h)"
          unfolding db' by (rule query_first_commit_update_same)
        with assms(2) have "g' = h" by simp
        with assms(3) have "progress g' = 100" by (simp add: h_def)
        with \<open>g' = h\<close> r show ?thesis by (simp add: goal_dict_def)
      qed
    qed
  qed
qed

theorem increment_progress_reaching_estimate_witness:
  "increment_progress 1
     [\<lparr>goal_id = 1, title = ''t'', description = ''d'', milestones = ''a,b'',
       progress = 200 / 3, estimated_days = 3, elapsed_days = 2\<rparr>]
     = (Inr (Updated_goal
              \<lparr>resp_id = 1, resp_title = ''t'', resp_description = ''d'',
               resp_milestones = [''a'', ''b''], resp_progress = 100,
               resp_estimated_days = 3, resp_elapsed_days = 3\<rparr>),
        [\<lparr>goal_id = 1, title = ''t'', description = ''d'', milestones = ''a,b'',
          progress = 100, estimated_days = 3, elapsed_days = 3\<rparr>])
   \<and> query_first 1
        [\<lparr>goal_id = 1, title = ''t'', description = ''d'', milestones = ''a,b'',
          progress = 100, estimated_days = 3, elapsed_days = 3\<rparr>]
     = Inr (Some \<lparr>goal_id = 1, title = ''t'', description = ''d'', milestones = ''a,b'',
             progress = 100, estimated_days = 3, elapsed_days = 3\<rparr>)
   \<and> (3::int) = 3
   \<and> progress \<lparr>goal_id = 1, title = ''t'', description = ''d'', milestones = ''a,b'',
          progress = 100, estimated_days = 3, elapsed_days = 3\<rparr> = 100"
proof -
  let ?g = "\<lparr>goal_id = 1, title = ''t'', description = ''d'', milestones = ''a,b'',
             progress = 200 / 3, estimated_days = 3, elapsed_days = 2\<rparr>"
  let ?g' = "\<lparr>goal_id = 1, title = ''t'', description = ''d'', milestones = ''a,b'',
             progress = 100, estimated_days = 3, elapsed_days = 3\<rparr>"
  let ?r = "Updated_goal
              \<lparr>resp_id = 1, resp_title = ''t'', resp_description = ''d'',
               resp_milestones = [''a'', ''b''], resp_progress = 100,
               resp_estimated_days = 3, resp_elapsed_days = 3\<rparr>"
  have res: "increment_progress 1 [?g] = (Inr ?r, [?g'])"
    by (simp add: increment_progress_def query_first_def bind_integer_def int64_def
        true_div_def Let_def goal_dict_def milestones_list_def commit_update_def)
  have stored: "query_first 1 [?g'] = Inr (Some ?g')"
    by (simp add: query_first_def bind_integer_def int64_def)
  have reached: "elapsed_days ?g' = estimated_days ?g'"
    by simp
  from increment_progress_reaching_estimate [OF res stored reached] res stored
  show ?thesis by simp
qed

subsection \<open>C10: no division by zero in the strict increment\<close>

text \<open>Claim C10. On every table the service can reach, the PUT increment never raises
  \<open>ZeroDivisionError\<close>; for a stored goal with \<open>estimated_days \<le> 0\<close> it raises
  \<open>HTTPException(400, "Goal already completed")\<close> and leaves the table unchanged.\<close>

theorem increment_progress_no_zero_division:
  assumes "reachable db"
  shows "fst (increment_progress gid db) \<noteq> Inl ZeroDivisionError
         \<and> (\<forall>g. query_first gid db = Inr (Some g) \<and> estimated_days g \<le> 0 \<longrightarrow>
               increment_progress gid db =
                 (Inl (HTTPException 400 ''Goal already completed''), db))"
proof -
  have completed: "increment_progress gid db =
                 (Inl (HTTPException 400 ''Goal already completed''), db)"
    if "query_first gid db = Inr (Some g)" and "estimated_days g \<le> 0" for g
  proof -
    from that(1) have "g \<in> set db" using query_first_SomeD by blast
    with assms have "0 \<le> elapsed_days g" using reachable_elapsed_nonneg by blast
    with that show ?thesis by (simp add: increment_progress_def)
  qed
  have "fst (increment_progress gid db) \<noteq> Inl ZeroDivisionError"
  proof (cases "query_first gid db")
    case (Inl e)
    then have "e = OverflowError"
      by (auto simp: query_first_def bind_integer_def split: if_splits)
    with Inl show ?thesis by (simp add: increment_progress_def)
  next
    case (Inr found)
    show ?thesis
    proof (cases found)
      case None
      with Inr show ?thesis by (simp add: increment_progress_def)
    next
      case (Some g)
      with Inr have row: "query_first gid db = Inr (Some g)" by simp
      show ?thesis
      proof (cases "estimated_days g \<le> 0")
        case True
        with row show ?thesis by (simp add: completed)
      next
        case False
        with row show ?thesis
          by (simp add: increment_progress_def true_div_def Let_def)
      qed
    qed
  qed
  with completed show ?thesis by blast
qed

theorem increment_progress_no_zero_division_witness:
  "reachable
     [\<lparr>goal_id = 1, title = ''t'', description = ''d'', milestones = ''a,b'',
       progress = 0, estimated_days = 0, elapsed_days = 0\<rparr>]
   \<and> query_first 1
        [\<lparr>goal_id = 1, title = ''t'', description = ''d'', milestones = ''a,b'',
          progress = 0, estimated_days = 0, elapsed_days = 0\<rparr>]
     = Inr (Some \<lparr>goal_id = 1, title = ''t'', description = ''d'', milestones = ''a,b'',
             progress = 0, estimated_days = 0, elapsed_days = 0\<rparr>)
   \<and> (0::int) \<le> 0
   \<and> increment_progress 1
        [\<lparr>goal_id = 1, title = ''t'', description = ''d'', milestones = ''a,b'',
          progress = 0, estimated_days = 0, elapsed_days = 0\<rparr>]
     = (Inl (HTTPException 400 ''Goal already completed''),
        [\<lparr>goal_id = 1, title = ''t'', description = ''d'', milestones = ''a,b'',
          progress = 0, estimated_days = 0, elapsed_days = 0\<rparr>])"
proof -
  let ?g = "\<lparr>goal_id = 1, title = ''t'', description = ''d'', milestones = ''a,b'',
             progress = 0, estimated_days = 0, elapsed_days = 0\<rparr>"
  have "reachable (snd (create_goal
          \<lparr>req_title = ''t'', req_description = ''d'', req_milestones = [''a'', ''b''],
           req_progress = 0, req_estimated_days = 0\<rparr> []))"
    using reach_init by (rule reach_create)
  then have reach: "reachable [?g]"
    by (simp add: create_goal_def Let_def bind_integer_def int64_def)
  have found: "query_first 1 [?g] = Inr (Some ?g)"
    by (simp add: query_first_def bind_integer_def int64_def)
  from increment_progress_no_zero_division [OF reach, of 1] reach found show ?thesis
    by simp
qed

end
